theory Spec2Isabelle
  imports Complex_Main "HOL-Library.AList"
begin

section \<open>Data model of the job tracker (src/master/job\_tracker.cc)\<close>

text \<open>
  Naming. The C++ members end in an underscore (\<open>state_\<close>, \<open>map_manager_\<close>, ...); record
  fields cannot, so the underscore is dropped. Where two records would share a field name
  the tracker's field gets a prefix: \<open>state_\<close> is \<open>job_state\<close>, the pool item's
  \<open>attempt\<close> is \<open>item_attempt\<close>.

  C++ \<open>int\<close> values are modelled as unbounded \<open>int\<close>: signed overflow is undefined
  behaviour in the source and no arithmetic below is meant to reach it.
  Pointers into \<open>allocation_table_\<close> are positions in the table (a \<open>nat\<close>).
  A result \<open>None\<close> of an operation stands for undefined behaviour of the C++ code
  (a null pointer dereferenced, a vector read out of range).
\<close>

datatype Status = kOk | kSuspend | kNoMore | kGalaxyError | kWriteFileFail
  | kOpenFileFail | kNoSuchJob | kNoSuchTask

datatype JobState = kPending | kRunning | kCompleted | kFailed | kKilled

datatype TaskState = kTaskRunning | kTaskCompleted | kTaskFailed | kTaskKilled
  | kTaskCanceled | kTaskMoveOutputFailed | kTaskUnknown

datatype ResourceStatus = kResPending | kResAllocated | kResDone

datatype JobType = kMapOnlyJob | kMapReduceJob

datatype WorkMode = kMap | kReduce | kMapOnly

record IdItem =
  no :: int
  item_attempt :: int
  status :: ResourceStatus
  allocated :: int

record ResourceItem = IdItem +
  input_file :: string
  offset :: int
  split_size :: int

record AllocateItem =
  endpoint :: string
  resource_no :: int
  attempt :: int
  state :: TaskState
  is_map :: bool
  alloc_time :: int
  period :: int

record JobDescriptor =
  job_type :: JobType
  inputs :: "string list"
  output_path :: string
  map_total :: int
  reduce_total :: int
  has_reduce_total :: bool
  map_capacity :: int
  reduce_capacity :: int
  has_reduce_capacity :: bool
  map_retry :: int
  has_map_retry :: bool
  reduce_retry :: int
  has_reduce_retry :: bool
  ignore_map_failures :: int
  ignore_reduce_failures :: int
  map_allow_duplicates :: bool
  reduce_allow_duplicates :: bool

text \<open>The gflags read by the tracker (DECLARE\_int32 at the top of job\_tracker.cc).\<close>

record Flags =
  first_sleeptime :: int
  time_tolerance :: int
  replica_num :: int
  replica_begin :: int
  replica_begin_percent :: int
  retry_bound :: int
  left_percent :: int
  max_counters_per_job :: int
  parallel_attempts :: int

text \<open>
  The tracker. \<open>map_gru\<close>/\<open>reduce_gru\<close> are the members \<open>map_\<close>/\<open>reduce_\<close> (the
  deployer handles; \<open>None\<close> is NULL). \<open>monitor\<close> is the single-thread pool: \<open>None\<close> is
  NULL, otherwise the list of scheduled \<open>KeepMonitoring\<close> tasks with their argument.
  \<open>rpc_client\<close> tells whether the pointer is non-NULL. \<open>retracted\<close> records the calls
  \<open>master_->RetractJob(job_id_, s)\<close> made so far (the master is outside this file).
  The two indices map a task number to its attempts and each attempt to the position of its
  AllocateItem; they are association lists with distinct keys, and so is \<open>counters\<close>
  (the \<open>std::map\<close> from counter name to value).
\<close>

record JobTracker =
  job_id :: string
  job_descriptor :: JobDescriptor
  job_state :: JobState
  map_allow_dup :: bool
  reduce_allow_dup :: bool
  map_gru :: "WorkMode option"
  map_manager :: "ResourceItem list option"
  map_end_game_begin :: int
  map_killed :: int
  map_failed :: int
  reduce_begin :: int
  reduce_gru :: "WorkMode option"
  reduce_manager :: "IdItem list option"
  reduce_end_game_begin :: int
  reduce_killed :: int
  reduce_failed :: int
  monitor :: "bool list option"
  map_monitoring :: bool
  reduce_monitoring :: bool
  rpc_client :: bool
  allocation_table :: "AllocateItem list"
  map_index :: "(int \<times> (int \<times> nat) list) list"
  reduce_index :: "(int \<times> (int \<times> nat) list) list"
  time_heap :: "nat list"
  map_slug :: "int list"
  reduce_slug :: "int list"
  failed_count :: "int list"
  failed_nodes :: "int \<Rightarrow> string set"
  map_dismissed :: "string set"
  reduce_dismissed :: "string set"
  counters :: "(string \<times> int) list"
  ignore_failure_mappers :: "int set"
  ignore_failure_reducers :: "int set"
  ignored_map_failures :: int
  ignored_reduce_failures :: int
  error_msg :: string
  start_time :: int
  finish_time :: int
  retracted :: "JobState list"

section \<open>Arithmetic helpers\<close>

text \<open>C++ integer division truncates towards zero.\<close>

definition cdiv :: "int \<Rightarrow> int \<Rightarrow> int" where
  "cdiv a b = sgn a * sgn b * (\<bar>a\<bar> div \<bar>b\<bar>)"

text \<open>
  \<open>(int) ::ceil(x / 100.0)\<close> for an \<open>int\<close> x. The quotient of a 32-bit integer by 100
  in double precision cannot be rounded across an integer, so the result is the exact
  ceiling, computed here on integers.
\<close>

definition ceil_percent :: "int \<Rightarrow> int" where
  "ceil_percent x = - ((- x) div 100)"

text \<open>\<open>std::vector::resize(n, v)\<close>.\<close>

definition resize :: "'a list \<Rightarrow> int \<Rightarrow> 'a \<Rightarrow> 'a list" where
  "resize xs n v = take (nat n) xs @ replicate (nat n - length xs) v"

section \<open>The task pools\<close>

text \<open>
  Modelled from the spec: the classes \<open>ResourceManager\<close> and \<open>IdManager\<close>
  (resource\_manager.cc) are not among the sources. A pool is the list of its items, the
  item of task \<open>n\<close> at position \<open>n\<close>. The operations follow section 4.1 of the
  specification: \<open>GetItem\<close> is Next, \<open>GetCertainItem\<close> is Take, \<open>FinishItem\<close> is Finish,
  \<open>ReturnBackItem\<close> is ReturnBack. Every handout increments the item's attempt and its
  allocated count. A task number outside the pool changes nothing. Whether duplicates are
  allowed is known to the tracker only, which decides when to call \<open>GetCertainItem\<close>.
\<close>

definition in_pool :: "('a IdItem_scheme) list \<Rightarrow> int \<Rightarrow> bool" where
  "in_pool p n = (0 \<le> n \<and> n < int (length p))"

definition SumOfItem :: "('a IdItem_scheme) list \<Rightarrow> int" where
  "SumOfItem p = int (length p)"

definition Pending :: "('a IdItem_scheme) list \<Rightarrow> int" where
  "Pending p = int (length (filter (\<lambda>i. status i = kResPending) p))"

definition Allocated :: "('a IdItem_scheme) list \<Rightarrow> int" where
  "Allocated p = int (length (filter (\<lambda>i. status i = kResAllocated) p))"

definition Done :: "('a IdItem_scheme) list \<Rightarrow> int" where
  "Done p = int (length (filter (\<lambda>i. status i = kResDone) p))"

definition IsAllocated :: "('a IdItem_scheme) list \<Rightarrow> int \<Rightarrow> bool" where
  "IsAllocated p n = (in_pool p n \<and> status (p ! nat n) = kResAllocated)"

definition IsDone :: "('a IdItem_scheme) list \<Rightarrow> int \<Rightarrow> bool" where
  "IsDone p n = (in_pool p n \<and> status (p ! nat n) = kResDone)"

fun next_pending :: "('a IdItem_scheme) list \<Rightarrow> nat option" where
  "next_pending [] = None"
| "next_pending (x # xs) =
     (if status x = kResPending then Some 0 else map_option Suc (next_pending xs))"

definition hand_out :: "'a IdItem_scheme \<Rightarrow> 'a IdItem_scheme" where
  "hand_out i = i\<lparr>item_attempt := item_attempt i + 1, status := kResAllocated,
                   allocated := allocated i + 1\<rparr>"

definition GetItem ::
  "('a IdItem_scheme) list \<Rightarrow> ('a IdItem_scheme \<times> ('a IdItem_scheme) list) option" where
  "GetItem p = (case next_pending p of
       None \<Rightarrow> None
     | Some k \<Rightarrow> Some (hand_out (p ! k), p[k := hand_out (p ! k)]))"

definition GetCertainItem ::
  "('a IdItem_scheme) list \<Rightarrow> int \<Rightarrow> ('a IdItem_scheme \<times> ('a IdItem_scheme) list) option" where
  "GetCertainItem p n =
     (if IsAllocated p n
      then Some (hand_out (p ! nat n), p[nat n := hand_out (p ! nat n)])
      else None)"

definition FinishItem :: "('a IdItem_scheme) list \<Rightarrow> int \<Rightarrow> bool \<times> ('a IdItem_scheme) list" where
  "FinishItem p n =
     (if in_pool p n \<and> status (p ! nat n) \<noteq> kResDone
      then (True, p[nat n := (p ! nat n)\<lparr>status := kResDone, allocated := 0\<rparr>])
      else (False, p))"

definition ReturnBackItem :: "('a IdItem_scheme) list \<Rightarrow> int \<Rightarrow> ('a IdItem_scheme) list" where
  "ReturnBackItem p n =
     (if in_pool p n \<and> status (p ! nat n) \<noteq> kResDone
      then (let it = p ! nat n; a = allocated it - 1
            in p[nat n := it\<lparr>status := (if a = 0 then kResPending else status it),
                               allocated := a\<rparr>])
      else p)"

definition IdManager :: "int \<Rightarrow> IdItem list" where
  "IdManager n = map (\<lambda>i. \<lparr>no = int i, item_attempt = 0, status = kResPending,
                            allocated = 0\<rparr>) [0..<nat n]"

section \<open>Construction and Start\<close>

text \<open>
  The constructor. The job id comes from \<open>GenerateJobId\<close> (clock and \<open>random()\<close>) and is
  a parameter here.
\<close>

definition JobTracker_new :: "Flags \<Rightarrow> string \<Rightarrow> JobDescriptor \<Rightarrow> JobTracker" where
  "JobTracker_new fl jid job =
     (let d1 = (if \<not> has_map_retry job
                then job\<lparr>map_retry := retry_bound fl, has_map_retry := True\<rparr> else job);
          d2 = (if \<not> has_reduce_retry d1
                then d1\<lparr>reduce_retry := retry_bound fl, has_reduce_retry := True\<rparr> else d1);
          d3 = (if has_reduce_total d2 \<and> has_reduce_capacity d2
                   \<and> reduce_capacity d2 > reduce_total d2 * 2
                then d2\<lparr>reduce_capacity := max (reduce_total d2 * 2) 60\<rparr> else d2)
      in \<lparr> job_id = jid, job_descriptor = d3, job_state = kPending,
           map_allow_dup = map_allow_duplicates d3,
           reduce_allow_dup = reduce_allow_duplicates d3,
           map_gru = None, map_manager = None, map_end_game_begin = 0,
           map_killed = 0, map_failed = 0, reduce_begin = 0,
           reduce_gru = None, reduce_manager = None, reduce_end_game_begin = 0,
           reduce_killed = 0, reduce_failed = 0,
           monitor = Some [], map_monitoring = False, reduce_monitoring = False,
           rpc_client = False, allocation_table = [], map_index = [], reduce_index = [],
           time_heap = [], map_slug = [], reduce_slug = [], failed_count = [],
           failed_nodes = (\<lambda>_. {}), map_dismissed = {}, reduce_dismissed = {},
           counters = [], ignore_failure_mappers = {}, ignore_failure_reducers = {},
           ignored_map_failures = 0, ignored_reduce_failures = 0, error_msg = [],
           start_time = 0, finish_time = 0, retracted = [] \<rparr>)"

text \<open>
  \<open>BuildResourceManagers\<close>. The constructor of \<open>ResourceManager\<close> (or of
  \<open>NLineResourceManager\<close>) lists the input files on the file system and splits them; its
  result, the items of the new pool, is the parameter \<open>parts\<close>. \<open>inputs[0]\<close> is read
  before that, so an empty input list is undefined behaviour. The address fields copied
  into \<open>input_dfs\<close> are not modelled.
\<close>

definition BuildResourceManagers ::
  "ResourceItem list \<Rightarrow> JobTracker \<Rightarrow> (Status \<times> JobTracker) option" where
  "BuildResourceManagers parts t =
     (if inputs (job_descriptor t) = [] then None
      else
        (let sum_of_map = SumOfItem parts;
             t1 = t\<lparr>map_manager := Some parts,
                    job_descriptor := (job_descriptor t)\<lparr>map_total := sum_of_map\<rparr>\<rparr>
         in if map_total (job_descriptor t1) < 1
            then Some (kOpenFileFail,
                       t1\<lparr>job_descriptor := (job_descriptor t1)\<lparr>reduce_total := 0\<rparr>,
                          job_state := kFailed\<rparr>)
            else
              (let t2 = (if job_type (job_descriptor t1) = kMapReduceJob
                         then t1\<lparr>reduce_manager :=
                                   Some (IdManager (reduce_total (job_descriptor t1)))\<rparr>
                         else t1)
               in Some (kOk, t2\<lparr>failed_count := resize (failed_count t2) sum_of_map 0\<rparr>))))"

definition BuildEndGameCounters :: "Flags \<Rightarrow> JobTracker \<Rightarrow> JobTracker" where
  "BuildEndGameCounters fl t =
     (case map_manager t of
        None \<Rightarrow> t
      | Some mm \<Rightarrow>
          (let sum_of_map = SumOfItem mm;
               meg = sum_of_map - replica_begin fl;
               temp = sum_of_map - cdiv (sum_of_map * replica_begin_percent fl) 100;
               t1 = t\<lparr>map_end_game_begin := (if meg > temp then temp else meg)\<rparr>
           in case reduce_manager t1 of
                None \<Rightarrow> t1
              | Some rm \<Rightarrow>
                  (let reg = SumOfItem rm - replica_begin fl;
                       temp2 = cdiv (SumOfItem rm * replica_begin_percent fl) 100
                   in t1\<lparr>reduce_begin :=
                            sum_of_map - cdiv (sum_of_map * replica_begin_percent fl) 100,
                          reduce_end_game_begin := (if reg < temp2 then temp2 else reg)\<rparr>)))"

text \<open>
  \<open>Start\<close>. Parameters from outside the tracker: the clock \<open>now\<close>, the answer
  \<open>out_exists\<close> of \<open>fs_->Exist(output)\<close>, the items \<open>parts\<close> produced by partitioning,
  and the status \<open>gru_start\<close> returned by \<open>map_->Start()\<close>.
\<close>

definition Start ::
  "Flags \<Rightarrow> int \<Rightarrow> bool \<Rightarrow> ResourceItem list \<Rightarrow> Status \<Rightarrow> JobTracker
     \<Rightarrow> (Status \<times> JobTracker) option" where
  "Start fl now out_exists parts gru_start t =
     (let t0 = t\<lparr>start_time := now\<rparr>
      in if out_exists
         then Some (kWriteFileFail,
                    t0\<lparr>job_descriptor := (job_descriptor t0)\<lparr>map_total := 0, reduce_total := 0\<rparr>,
                       job_state := kFailed\<rparr>)
         else (case BuildResourceManagers parts t0 of
                 None \<Rightarrow> None
               | Some (st, t1) \<Rightarrow>
                   if st \<noteq> kOk then Some (kNoMore, t1)
                   else
                     (let t2 = BuildEndGameCounters fl t1;
                          t3 = t2\<lparr>rpc_client := True,
                                 map_gru := Some (if job_type (job_descriptor t2) = kMapOnlyJob
                                                  then kMapOnly else kMap)\<rparr>
                      in if gru_start = kOk then Some (kOk, t3)
                         else Some (kGalaxyError, t3))))"

section \<open>Dismissal and counters\<close>

text \<open>
  \<open>CanMapDismiss\<close> and \<open>CanReduceDismiss\<close>, called with a non-NULL \<open>status\<close>; the status
  written through the pointer is the first component of the result.
\<close>

definition CanMapDismiss :: "Flags \<Rightarrow> JobTracker \<Rightarrow> string \<Rightarrow> (Status \<times> JobTracker) option" where
  "CanMapDismiss fl t ep =
     (case map_manager t of
        None \<Rightarrow> None
      | Some mm \<Rightarrow>
          (let completed = Done mm;
               not_done = map_total (job_descriptor t) - completed;
               map_dismiss_minion_num = map_capacity (job_descriptor t)
                   - ceil_percent (max not_done 5 * left_percent fl)
           in if map_capacity (job_descriptor t) > not_done
              then (if int (card (map_dismissed t)) \<ge> map_dismiss_minion_num
                    then Some (kSuspend, t)
                    else Some (kNoMore, t\<lparr>map_dismissed := insert ep (map_dismissed t)\<rparr>))
              else Some (kSuspend, t)))"


text \<open>
  \<open>AccumulateCounters\<close>. The reported counters are a \<open>std::map\<close>, given here as the list of
  its entries in iteration order. \<open>counters_[key] += value\<close> creates a missing entry with
  value 0 first. The flag is cast to \<open>size_t\<close> (64 bits) before the comparison.
\<close>

definition size_t_of_int :: "int \<Rightarrow> int" where
  "size_t_of_int x = x mod 2 ^ 64"

definition counter_value :: "(string \<times> int) list \<Rightarrow> string \<Rightarrow> int" where
  "counter_value cs k = (case map_of cs k of None \<Rightarrow> 0 | Some v \<Rightarrow> v)"

fun accumulate :: "(string \<times> int) list \<Rightarrow> (string \<times> int) list \<Rightarrow> (string \<times> int) list" where
  "accumulate cs [] = cs"
| "accumulate cs ((k, v) # kvs) = accumulate (AList.update k (counter_value cs k + v) cs) kvs"

definition AccumulateCounters ::
  "Flags \<Rightarrow> (string \<times> int) list \<Rightarrow> JobTracker \<Rightarrow> bool \<times> JobTracker" where
  "AccumulateCounters fl reported t =
     (if int (length (counters t)) > size_t_of_int (max_counters_per_job fl)
      then (False, t)
      else (True, t\<lparr>counters := accumulate (counters t) reported\<rparr>))"

section \<open>The allocation ledger\<close>

text \<open>
  \<open>map_index_[no][attempt]\<close>: lookup with \<open>find\<close> on both levels, and the assignment
  \<open>index[no][attempt] = alloc\<close>, which creates the inner map when it is missing and
  overwrites an entry that is there.
\<close>

definition index_find :: "(int \<times> (int \<times> nat) list) list \<Rightarrow> int \<Rightarrow> int \<Rightarrow> nat option" where
  "index_find idx n a = (case map_of idx n of None \<Rightarrow> None | Some m \<Rightarrow> map_of m a)"

definition index_put ::
  "(int \<times> (int \<times> nat) list) list \<Rightarrow> int \<Rightarrow> int \<Rightarrow> nat \<Rightarrow> (int \<times> (int \<times> nat) list) list" where
  "index_put idx n a pos =
     AList.update n (AList.update a pos (case map_of idx n of None \<Rightarrow> [] | Some m \<Rightarrow> m)) idx"

text \<open>
  The lookup at the head of \<open>FinishMap\<close> and \<open>FinishReduce\<close>: the entry of
  \<open>(no, attempt)\<close>, if it is there and still Running. Index entries always point into the
  table; a position outside it finds nothing.
\<close>

definition find_running ::
  "(int \<times> (int \<times> nat) list) list \<Rightarrow> AllocateItem list \<Rightarrow> int \<Rightarrow> int \<Rightarrow> nat option" where
  "find_running idx tbl n a =
     (case index_find idx n a of
        None \<Rightarrow> None
      | Some pos \<Rightarrow> if pos < length tbl \<and> state (tbl ! pos) = kTaskRunning
                    then Some pos else None)"

text \<open>\<open>cur_node\<close>: the endpoint up to its first colon, empty when it has none.\<close>

definition node_of :: "string \<Rightarrow> string" where
  "node_of ep = (if CHR '':'' \<in> set ep then takeWhile (\<lambda>c. c \<noteq> CHR '':'') ep else [])"

text \<open>
  \<open>CancelOtherAttempts\<close>: every entry of the task other than the winning attempt becomes
  Canceled, whatever its state was. The \<open>CancelTask\<close> requests sent to the workers are
  fire-and-forget and leave no trace in the tracker.
\<close>

definition cancel_entry :: "int \<Rightarrow> int \<Rightarrow> int \<times> nat \<Rightarrow> AllocateItem list \<Rightarrow> AllocateItem list" where
  "cancel_entry a now e tbl =
     (let pos = snd e
      in if pos < length tbl \<and> attempt (tbl ! pos) \<noteq> a
         then tbl[pos := (tbl ! pos)\<lparr>state := kTaskCanceled,
                                      period := now - alloc_time (tbl ! pos)\<rparr>]
         else tbl)"

definition CancelOtherAttempts ::
  "(int \<times> (int \<times> nat) list) list \<Rightarrow> int \<Rightarrow> int \<Rightarrow> int \<Rightarrow> JobTracker \<Rightarrow> JobTracker" where
  "CancelOtherAttempts lookup_index n a now t =
     (if \<not> rpc_client t then t
      else case map_of lookup_index n of
             None \<Rightarrow> t
           | Some m \<Rightarrow> t\<lparr>allocation_table := fold (cancel_entry a now) m (allocation_table t)\<rparr>)"

section \<open>FinishMap and FinishReduce\<close>

text \<open>
  What a Finish call takes from outside the tracker: the clock, the status of
  \<open>SortFileWriter::Create\<close> and of the writer's \<open>Close\<close> (synthetic empty sort file), and
  the status of \<open>reduce_->Start()\<close>. \<open>fs_->Remove\<close> has no effect on the tracker.
  \<open>master_->RetractJob(job_id_, s)\<close> is recorded in \<open>retracted\<close>.
\<close>

record FinishEnv =
  fin_now :: int
  w_create :: Status
  w_close :: Status
  reduce_start :: Status

definition RetractJob :: "JobState \<Rightarrow> JobTracker \<Rightarrow> JobTracker" where
  "RetractJob s t = t\<lparr>retracted := retracted t @ [s]\<rparr>"

text \<open>The end of the map phase, reached when \<open>completed == map_manager_->SumOfItem()\<close>.\<close>

definition map_phase_end :: "JobTracker \<Rightarrow> (TaskState \<times> bool \<times> JobTracker) option" where
  "map_phase_end t =
     (if job_type (job_descriptor t) = kMapOnlyJob
      then Some (kTaskCompleted, True, (RetractJob kCompleted t)\<lparr>job_state := kCompleted\<rparr>)
      else (case reduce_manager t of
              None \<Rightarrow> None
            | Some rm \<Rightarrow>
                Some (kTaskCompleted, False,
                  t\<lparr>failed_count := resize (resize (failed_count t) 0 0) (SumOfItem rm) 0,
                    failed_nodes := (\<lambda>_. {}),
                    time_heap := filter (\<lambda>pos. \<not> is_map (allocation_table t ! pos)) (time_heap t),
                    monitor := Some (if reduce_monitoring t then [False] else []),
                    map_gru := None\<rparr>)))"

definition finish_map_completed ::
  "Flags \<Rightarrow> FinishEnv \<Rightarrow> (string \<times> int) list \<Rightarrow> int \<Rightarrow> ResourceItem list \<Rightarrow> JobTracker
     \<Rightarrow> (TaskState \<times> bool \<times> JobTracker) option" where
  "finish_map_completed fl env cnts rno mm t =
     (case FinishItem mm rno of
        (False, _) \<Rightarrow> Some (kTaskCanceled, False, t)
      | (True, mm') \<Rightarrow>
          (let t1 = snd (AccumulateCounters fl cnts (t\<lparr>map_manager := Some mm'\<rparr>));
               completed = Done mm'
           in if completed = reduce_begin t1 \<and> job_type (job_descriptor t1) \<noteq> kMapOnlyJob
              then (let t2 = t1\<lparr>reduce_gru := Some kReduce\<rparr>
                    in if reduce_start env \<noteq> kOk
                       then Some (kTaskCompleted, True,
                              (RetractJob kFailed
                                 (t2\<lparr>error_msg := ''Failed to submit job on Galaxy'' @ [CHR 0x0A]\<rparr>))
                                \<lparr>job_state := kFailed\<rparr>)
                       else if completed = SumOfItem mm' then map_phase_end t2
                       else Some (kTaskCompleted, False, t2))
              else if completed = SumOfItem mm' then map_phase_end t1
              else Some (kTaskCompleted, False, t1)))"

definition finish_map_failed ::
  "string \<Rightarrow> string \<Rightarrow> int \<Rightarrow> ResourceItem list \<Rightarrow> JobTracker
     \<Rightarrow> (TaskState \<times> bool \<times> JobTracker) option" where
  "finish_map_failed err_msg cur_node rno mm t =
     (if \<not> (0 \<le> rno \<and> rno < int (length (failed_count t))) then None
      else
        (let t1 = t\<lparr>map_manager := Some (ReturnBackItem mm rno)\<rparr>;
             t2 = (if cur_node \<notin> failed_nodes t1 rno
                   then t1\<lparr>failed_count := (failed_count t1)
                                [nat rno := failed_count t1 ! nat rno + 1],
                           failed_nodes := (failed_nodes t1)
                                (rno := insert cur_node (failed_nodes t1 rno))\<rparr>
                   else t1);
             t3 = t2\<lparr>map_failed := map_failed t2 + 1\<rparr>
         in if failed_count t3 ! nat rno \<ge> map_retry (job_descriptor t3)
            then (if ignored_map_failures t3 < ignore_map_failures (job_descriptor t3)
                  then Some (kTaskFailed, False,
                         t3\<lparr>ignore_failure_mappers := insert rno (ignore_failure_mappers t3),
                            ignored_map_failures := ignored_map_failures t3 + 1\<rparr>)
                  else Some (kTaskFailed, True,
                         (RetractJob kFailed (t3\<lparr>error_msg := err_msg\<rparr>))
                           \<lparr>job_state := kFailed\<rparr>))
            else Some (kTaskFailed, False, t3)))"

text \<open>
  \<open>FinishMap\<close>. The \<open>default\<close> branch of the switch returns \<open>kNoMore\<close> before anything is
  changed; it is taken for the reported states Running and Unknown, which nothing before
  the switch rewrites, so the model tests for them first. After that only Completed,
  Failed, Killed and Canceled reach the case distinction.

  The second half of \<open>FinishMap\<close>: the terminal state and the period are written to the
  entry, a Killed or Failed task is queued again when duplicates are allowed, and the
  other attempts of a Completed task are cancelled.
\<close>

definition commit_map ::
  "int \<Rightarrow> int \<Rightarrow> int \<Rightarrow> nat \<Rightarrow> TaskState \<times> bool \<times> JobTracker \<Rightarrow> Status \<times> JobTracker" where
  "commit_map now n a pos r =
     (case r of (st, finished, t) \<Rightarrow>
        (let cur = allocation_table t ! pos;
             t1 = t\<lparr>allocation_table := (allocation_table t)
                       [pos := cur\<lparr>state := st, period := now - alloc_time cur\<rparr>],
                    map_slug := (if map_allow_dup t \<and> (st = kTaskKilled \<or> st = kTaskFailed)
                                 then map_slug t @ [resource_no cur] else map_slug t)\<rparr>
         in if st \<noteq> kTaskCompleted then (kOk, t1)
            else if \<not> map_allow_dup t1 then (kOk, t1)
            else (let t2 = CancelOtherAttempts (map_index t1) n a now t1
                  in (kOk, if finished then t2\<lparr>rpc_client := False\<rparr> else t2))))"

text \<open>
  From the rewriting of \<open>kTaskMoveOutputFailed\<close> to the end of the switch: the terminal
  state of the entry, the flag \<open>finished\<close> and the tracker.
\<close>

definition dispatch_map ::
  "Flags \<Rightarrow> FinishEnv \<Rightarrow> TaskState \<Rightarrow> string \<Rightarrow> (string \<times> int) list \<Rightarrow> nat
     \<Rightarrow> ResourceItem list \<Rightarrow> JobTracker \<Rightarrow> (TaskState \<times> bool \<times> JobTracker) option" where
  "dispatch_map fl env st0 err_msg cnts pos mm t =
     (let cur = allocation_table t ! pos;
          rno = resource_no cur;
          st1 = (if st0 = kTaskMoveOutputFailed
                 then (if \<not> IsDone mm rno then kTaskFailed else kTaskCanceled)
                 else st0);
          cur_node = node_of (endpoint cur);
          st2 = (if st1 = kTaskFailed \<and> rno \<in> ignore_failure_mappers t
                 then (if job_type (job_descriptor t) \<noteq> kMapOnlyJob
                          \<and> w_create env = kOk \<and> w_close env \<noteq> kOk
                       then kTaskFailed else kTaskCompleted)
                 else st1)
      in case st2 of
           kTaskCompleted \<Rightarrow> finish_map_completed fl env cnts rno mm t
         | kTaskFailed \<Rightarrow> finish_map_failed err_msg cur_node rno mm t
         | kTaskKilled \<Rightarrow>
             Some (kTaskKilled, False,
                   t\<lparr>map_manager := Some (ReturnBackItem mm rno),
                     map_killed := map_killed t + 1\<rparr>)
         | _ \<Rightarrow>
             Some (kTaskCanceled, False,
                   if \<not> IsDone mm rno
                   then t\<lparr>map_manager := Some (ReturnBackItem mm rno)\<rparr>
                   else t))"

definition FinishMap ::
  "Flags \<Rightarrow> FinishEnv \<Rightarrow> int \<Rightarrow> int \<Rightarrow> TaskState \<Rightarrow> string \<Rightarrow> (string \<times> int) list
     \<Rightarrow> JobTracker \<Rightarrow> (Status \<times> JobTracker) option" where
  "FinishMap fl env n a st0 err_msg cnts t =
     (case find_running (map_index t) (allocation_table t) n a of
        None \<Rightarrow> Some (kNoMore, t)
      | Some pos \<Rightarrow>
          if st0 = kTaskRunning \<or> st0 = kTaskUnknown then Some (kNoMore, t)
          else
          (case map_manager t of
             None \<Rightarrow> None
           | Some mm \<Rightarrow>
               map_option (commit_map (fin_now env) n a pos)
                 (dispatch_map fl env st0 err_msg cnts pos mm t)))"

text \<open>\<open>FinishReduce\<close>, with the early rejection while the map phase is not done.\<close>

definition finish_reduce_completed ::
  "Flags \<Rightarrow> (string \<times> int) list \<Rightarrow> int \<Rightarrow> IdItem list \<Rightarrow> JobTracker
     \<Rightarrow> (TaskState \<times> bool \<times> JobTracker) option" where
  "finish_reduce_completed fl cnts rno rm t =
     (case FinishItem rm rno of
        (False, _) \<Rightarrow> Some (kTaskCanceled, False, t)
      | (True, rm') \<Rightarrow>
          (let t1 = snd (AccumulateCounters fl cnts (t\<lparr>reduce_manager := Some rm'\<rparr>));
               completed = Done rm'
           in if completed = SumOfItem rm'
              then Some (kTaskCompleted, True,
                         (RetractJob kCompleted t1)\<lparr>job_state := kCompleted\<rparr>)
              else Some (kTaskCompleted, False, t1)))"

definition finish_reduce_failed ::
  "string \<Rightarrow> string \<Rightarrow> int \<Rightarrow> IdItem list \<Rightarrow> JobTracker
     \<Rightarrow> (TaskState \<times> bool \<times> JobTracker) option" where
  "finish_reduce_failed err_msg cur_node rno rm t =
     (if \<not> (0 \<le> rno \<and> rno < int (length (failed_count t))) then None
      else
        (let t1 = t\<lparr>reduce_manager := Some (ReturnBackItem rm rno)\<rparr>;
             t2 = (if cur_node \<notin> failed_nodes t1 rno
                   then t1\<lparr>failed_count := (failed_count t1)
                                [nat rno := failed_count t1 ! nat rno + 1],
                           failed_nodes := (failed_nodes t1)
                                (rno := insert cur_node (failed_nodes t1 rno))\<rparr>
                   else t1);
             t3 = t2\<lparr>reduce_failed := reduce_failed t2 + 1\<rparr>
         in if failed_count t3 ! nat rno \<ge> reduce_retry (job_descriptor t3)
            then (if ignored_reduce_failures t3 < ignore_reduce_failures (job_descriptor t3)
                  then Some (kTaskFailed, False,
                         t3\<lparr>ignore_failure_reducers := insert rno (ignore_failure_reducers t3),
                            ignored_reduce_failures := ignored_reduce_failures t3 + 1\<rparr>)
                  else Some (kTaskFailed, True,
                         (RetractJob kFailed (t3\<lparr>error_msg := err_msg\<rparr>))
                           \<lparr>job_state := kFailed\<rparr>))
            else Some (kTaskFailed, False, t3)))"

definition commit_reduce ::
  "int \<Rightarrow> int \<Rightarrow> int \<Rightarrow> nat \<Rightarrow> TaskState \<times> bool \<times> JobTracker \<Rightarrow> Status \<times> JobTracker" where
  "commit_reduce now n a pos r =
     (case r of (st, finished, t) \<Rightarrow>
        (let cur = allocation_table t ! pos;
             t1 = t\<lparr>allocation_table := (allocation_table t)
                       [pos := cur\<lparr>state := st, period := now - alloc_time cur\<rparr>],
                    reduce_slug := (if reduce_allow_dup t \<and> (st = kTaskKilled \<or> st = kTaskFailed)
                                    then reduce_slug t @ [resource_no cur] else reduce_slug t)\<rparr>
         in if st \<noteq> kTaskCompleted then (kOk, t1)
            else if \<not> reduce_allow_dup t1 then (kOk, t1)
            else (let t2 = CancelOtherAttempts (reduce_index t1) n a now t1
                  in (kOk, if finished then t2\<lparr>rpc_client := False\<rparr> else t2))))"

definition map_not_done :: "JobTracker \<Rightarrow> bool" where
  "map_not_done t =
     (case map_manager t of
        None \<Rightarrow> False
      | Some mm \<Rightarrow> Done mm < map_total (job_descriptor t))"

definition dispatch_reduce ::
  "Flags \<Rightarrow> TaskState \<Rightarrow> string \<Rightarrow> (string \<times> int) list \<Rightarrow> nat
     \<Rightarrow> IdItem list \<Rightarrow> JobTracker \<Rightarrow> (TaskState \<times> bool \<times> JobTracker) option" where
  "dispatch_reduce fl st0 err_msg cnts pos rm t =
     (let cur = allocation_table t ! pos;
          rno = resource_no cur;
          st1 = (if st0 = kTaskMoveOutputFailed
                 then (if \<not> IsDone rm rno then kTaskFailed else kTaskCanceled)
                 else st0);
          cur_node = node_of (endpoint cur);
          st2 = (if st1 = kTaskFailed \<and> rno \<in> ignore_failure_reducers t
                 then kTaskCompleted else st1)
      in case st2 of
           kTaskCompleted \<Rightarrow> finish_reduce_completed fl cnts rno rm t
         | kTaskFailed \<Rightarrow> finish_reduce_failed err_msg cur_node rno rm t
         | kTaskKilled \<Rightarrow>
             Some (kTaskKilled, False,
                   t\<lparr>reduce_manager := Some (ReturnBackItem rm rno),
                     reduce_killed := reduce_killed t + 1\<rparr>)
         | _ \<Rightarrow>
             Some (kTaskCanceled, False,
                   if \<not> IsDone rm rno
                   then t\<lparr>reduce_manager := Some (ReturnBackItem rm rno)\<rparr>
                   else t))"

definition FinishReduce ::
  "Flags \<Rightarrow> FinishEnv \<Rightarrow> int \<Rightarrow> int \<Rightarrow> TaskState \<Rightarrow> string \<Rightarrow> (string \<times> int) list
     \<Rightarrow> JobTracker \<Rightarrow> (Status \<times> JobTracker) option" where
  "FinishReduce fl env n a st0 err_msg cnts t =
     (if map_not_done t \<and> st0 \<noteq> kTaskKilled then Some (kSuspend, t)
      else
      (case find_running (reduce_index t) (allocation_table t) n a of
        None \<Rightarrow> Some (kNoMore, t)
      | Some pos \<Rightarrow>
          if st0 = kTaskRunning \<or> st0 = kTaskUnknown then Some (kNoMore, t)
          else
          (case reduce_manager t of
             None \<Rightarrow> None
           | Some rm \<Rightarrow>
               map_option (commit_reduce (fin_now env) n a pos)
                 (dispatch_reduce fl st0 err_msg cnts pos rm t))))"

section \<open>AssignMap, AssignReduce, Update and Kill\<close>

text \<open>
  The new ledger entry of an assignment: appended to the table, entered in the index and
  pushed on the time heap. The heap is kept as the list of its elements; its order is
  only looked at by the monitor.
\<close>

definition new_alloc :: "string \<Rightarrow> int \<Rightarrow> int \<Rightarrow> bool \<Rightarrow> int \<Rightarrow> AllocateItem" where
  "new_alloc ep n a m now =
     \<lparr>endpoint = ep, resource_no = n, attempt = a, state = kTaskRunning, is_map = m,
      alloc_time = now, period = - 1\<rparr>"

definition drain_slug :: "('a IdItem_scheme) list \<Rightarrow> int list \<Rightarrow> int list" where
  "drain_slug p slug = dropWhile (\<lambda>n. \<not> IsAllocated p n) slug"

definition record_map_alloc ::
  "string \<Rightarrow> int \<Rightarrow> ResourceItem \<Rightarrow> JobTracker
     \<Rightarrow> ((ResourceItem option \<times> Status) \<times> JobTracker) option" where
  "record_map_alloc ep now cur t =
     (if no cur \<ge> map_end_game_begin t \<and> \<not> map_monitoring t \<and> monitor t = None then None
      else
        (let t1 = (if no cur \<ge> map_end_game_begin t \<and> \<not> map_monitoring t
                   then t\<lparr>monitor := map_option (\<lambda>q. q @ [True]) (monitor t),
                          map_monitoring := True\<rparr>
                   else t);
             alloc = new_alloc ep (no cur) (item_attempt cur) True now;
             pos = length (allocation_table t1)
         in Some ((Some cur, kOk),
                  t1\<lparr>allocation_table := allocation_table t1 @ [alloc],
                     map_index := index_put (map_index t1) (resource_no alloc) (attempt alloc) pos,
                     time_heap := time_heap t1 @ [pos]\<rparr>)))"

definition AssignMap ::
  "Flags \<Rightarrow> int \<Rightarrow> string \<Rightarrow> JobTracker
     \<Rightarrow> ((ResourceItem option \<times> Status) \<times> JobTracker) option" where
  "AssignMap fl now ep t =
     (let t0 = (if job_state t = kPending then t\<lparr>job_state := kRunning\<rparr> else t)
      in case map_manager t0 of
           None \<Rightarrow> None
         | Some mm \<Rightarrow>
            (case GetItem mm of
               None \<Rightarrow>
                 (let slug = drain_slug mm (map_slug t0);
                      t1 = t0\<lparr>map_slug := slug\<rparr>
                  in if slug = []
                     then map_option (\<lambda>(s, t'). ((None, s), t')) (CanMapDismiss fl t1 ep)
                     else (case GetCertainItem mm (hd slug) of
                             None \<Rightarrow>
                               map_option (\<lambda>(s, t'). ((None, s), t'))
                                 (CanMapDismiss fl (t1\<lparr>map_slug := tl slug\<rparr>) ep)
                           | Some (cur, mm') \<Rightarrow>
                               record_map_alloc ep now cur
                                 (t1\<lparr>map_slug := tl slug, map_manager := Some mm'\<rparr>)))
             | Some (cur, mm') \<Rightarrow>
                 (let t1 = t0\<lparr>map_manager := Some mm'\<rparr>;
                      t2 = (if map_allow_dup t1 \<and> no cur \<ge> map_end_game_begin t1
                            then t1\<lparr>map_slug := map_slug t1
                                       @ replicate (nat (replica_num fl)) (no cur)\<rparr>
                            else t1)
                  in record_map_alloc ep now cur t2)))"






section \<open>Dump, Replay and Load\<close>

definition HistoryForDump :: "JobTracker \<Rightarrow> AllocateItem list" where
  "HistoryForDump t = allocation_table t"

text \<open>
  Modelled from the spec: \<open>ResourceManager::Dump\<close> and \<open>Load\<close> are not among the sources;
  they snapshot and restore the items of the pool.
\<close>

definition InputDataForDump :: "JobTracker \<Rightarrow> ResourceItem list" where
  "InputDataForDump t = (case map_manager t of None \<Rightarrow> [] | Some mm \<Rightarrow> mm)"

text \<open>
  \<open>Replay\<close>. The table is indexed with the task number converted to \<open>size_t\<close>, and an
  entry beyond the table or of the other phase is skipped.
\<close>

definition replay_init :: "nat \<Rightarrow> IdItem list" where
  "replay_init n = map (\<lambda>i. \<lparr>no = int i, item_attempt = 0, status = kResPending,
                              allocated = 0\<rparr>) [0..<n]"

definition replay_step :: "bool \<Rightarrow> AllocateItem \<Rightarrow> IdItem list \<Rightarrow> IdItem list" where
  "replay_step m it table =
     (if size_t_of_int (resource_no it) \<ge> int (length table) \<or> is_map it \<noteq> m then table
      else
        (let k = nat (size_t_of_int (resource_no it));
             cur = (table ! k)\<lparr>item_attempt := attempt it\<rparr>
         in table[k := (case state it of
                          kTaskRunning \<Rightarrow>
                            (if status cur \<noteq> kResDone
                             then cur\<lparr>status := kResAllocated, allocated := allocated cur + 1\<rparr>
                             else cur)
                        | kTaskCompleted \<Rightarrow> cur\<lparr>status := kResDone, allocated := 0\<rparr>
                        | _ \<Rightarrow> cur)]))"

definition Replay :: "AllocateItem list \<Rightarrow> nat \<Rightarrow> bool \<Rightarrow> IdItem list" where
  "Replay history n m = fold (replay_step m) history (replay_init n)"

text \<open>
  \<open>std::copy(id_data.begin(), id_data.end(), res_data.begin())\<close>: the \<open>IdItem\<close> part of
  every resource item is overwritten, the input split is kept.
\<close>

definition overlay :: "ResourceItem \<Rightarrow> IdItem \<Rightarrow> ResourceItem" where
  "overlay r i = r\<lparr>no := no i, item_attempt := item_attempt i, status := status i,
                   allocated := allocated i\<rparr>"

text \<open>The loop at the end of \<open>Load\<close> over the saved history.\<close>

definition load_entry :: "AllocateItem \<Rightarrow> JobTracker \<Rightarrow> JobTracker" where
  "load_entry alloc t =
     (let pos = length (allocation_table t);
          t1 = t\<lparr>allocation_table := allocation_table t @ [alloc]\<rparr>;
          t2 = (if is_map alloc
                then t1\<lparr>map_index := index_put (map_index t1) (resource_no alloc)
                                        (attempt alloc) pos\<rparr>
                else t1\<lparr>reduce_index := index_put (reduce_index t1) (resource_no alloc)
                                           (attempt alloc) pos\<rparr>)
      in case state alloc of
           kTaskRunning \<Rightarrow> t2\<lparr>time_heap := time_heap t2 @ [pos]\<rparr>
         | kTaskFailed \<Rightarrow> (if is_map alloc then t2\<lparr>map_failed := map_failed t2 + 1\<rparr>
                            else t2\<lparr>reduce_failed := reduce_failed t2 + 1\<rparr>)
         | kTaskKilled \<Rightarrow> (if is_map alloc then t2\<lparr>map_killed := map_killed t2 + 1\<rparr>
                            else t2\<lparr>reduce_killed := reduce_killed t2 + 1\<rparr>)
         | _ \<Rightarrow> t2)"

text \<open>
  \<open>Load\<close>, in the order of the source: the two pools are rebuilt by \<open>Replay\<close> and the
  end-game thresholds recomputed (\<open>load_pools\<close>); \<open>failed_count_\<close> is sized for the
  phase the job is in (\<open>load_failed_count\<close>, which also yields \<open>is_map\<close>); the monitor is
  scheduled and the RPC client created, or the monitor deleted (\<open>load_monitor\<close>); the
  history is copied into the ledger. The temporary \<open>ResourceManager\<close> built from no input
  has no items. A negative task total makes a \<open>resize\<close> throw; this is the result
  \<open>None\<close>, as is the use of a NULL monitor.
\<close>

definition load_pools ::
  "Flags \<Rightarrow> AllocateItem list \<Rightarrow> ResourceItem list \<Rightarrow> JobTracker \<Rightarrow> JobTracker" where
  "load_pools fl data resource t =
     (let d = job_descriptor t;
          t1 = (if map_total d \<noteq> 0
                then t\<lparr>map_manager :=
                         Some (map2 overlay resource (Replay data (nat (map_total d)) True))\<rparr>
                else t);
          t2 = (if reduce_total d \<noteq> 0
                then t1\<lparr>reduce_manager :=
                          Some (Replay data (length (IdManager (reduce_total d))) False)\<rparr>
                else t1)
      in BuildEndGameCounters fl t2)"

definition load_map_done :: "JobTracker \<Rightarrow> bool" where
  "load_map_done t =
     (case map_manager t of
        None \<Rightarrow> False
      | Some mm \<Rightarrow> Done mm = map_total (job_descriptor t))"

definition load_failed_count :: "JobTracker \<Rightarrow> JobTracker" where
  "load_failed_count t =
     (let d = job_descriptor t;
          fc = resize (failed_count t) (map_total d) 0
      in t\<lparr>failed_count := (if load_map_done t
                             then resize (resize fc 0 0) (reduce_total d) 0
                             else fc)\<rparr>)"

definition load_monitor :: "JobState \<Rightarrow> bool \<Rightarrow> JobTracker \<Rightarrow> JobTracker" where
  "load_monitor st is_m t =
     (let t1 = (if st = kRunning
                then (if is_m
                      then t\<lparr>monitor := map_option (\<lambda>q. q @ [is_m]) (monitor t),
                             map_monitoring := True\<rparr>
                      else t\<lparr>monitor := map_option (\<lambda>q. q @ [is_m]) (monitor t),
                             reduce_monitoring := True\<rparr>)
                else t)
      in if st = kRunning \<or> st = kPending
         then t1\<lparr>rpc_client := True\<rparr>
         else t1\<lparr>monitor := None\<rparr>)"

definition Load ::
  "Flags \<Rightarrow> string \<Rightarrow> JobState \<Rightarrow> AllocateItem list \<Rightarrow> ResourceItem list \<Rightarrow> int \<Rightarrow> int
     \<Rightarrow> JobTracker \<Rightarrow> (bool \<times> JobTracker) option" where
  "Load fl jobid st data resource start finish t =
     (let d = job_descriptor t;
          t0 = t\<lparr>job_id := jobid, job_state := st, start_time := start, finish_time := finish\<rparr>
      in if map_total d < 0 \<or> reduce_total d < 0 then None
         else if map_total d \<noteq> 0 \<and> int (length resource) \<noteq> map_total d
         then Some (False, t0\<lparr>map_manager := Some []\<rparr>)
         else
           (let t3 = load_pools fl data resource t0;
                is_m = (\<not> load_map_done t3);
                t4 = load_failed_count t3
            in if st = kRunning \<and> monitor t4 = None then None
               else Some (True, fold load_entry data (load_monitor st is_m t4))))"

text \<open>
  The round trip of a checkpoint: the history and the map resource table of \<open>J\<close> are
  dumped and loaded, with the job id, state and times of \<open>J\<close>, into a tracker newly
  constructed from the job descriptor of \<open>J\<close>.
\<close>

definition Load_after_Dump :: "Flags \<Rightarrow> JobTracker \<Rightarrow> (bool \<times> JobTracker) option" where
  "Load_after_Dump fl J =
     Load fl (job_id J) (job_state J) (HistoryForDump J) (InputDataForDump J)
       (start_time J) (finish_time J) (JobTracker_new fl (job_id J) (job_descriptor J))"

section \<open>The worker's Query and the straggler monitor\<close>

text \<open>
  \<open>MinionImpl::Query\<close> (src/minion/minion\_impl.cc). A response field that was never set
  is \<open>None\<close>; the getters of the generated protobuf class then give the default of the
  field type (the empty string, 0). \<open>errmsg\<close> is what the executor returns for the
  current task when the request asks for details.
\<close>

record Minion =
  m_jobid :: string
  cur_task_id :: int
  cur_attempt_id :: int
  cur_task_state :: TaskState
  task_frozen :: bool
  over_loaded :: bool
  frozen_time :: int

record QueryResponse =
  r_job_id :: "string option"
  r_task_id :: "int option"
  r_attempt_id :: "int option"
  r_task_state :: "TaskState option"
  r_log_msg :: "string option"

definition empty_response :: QueryResponse where
  "empty_response = \<lparr>r_job_id = None, r_task_id = None, r_attempt_id = None,
                      r_task_state = None, r_log_msg = None\<rparr>"

definition Query :: "int \<Rightarrow> bool \<Rightarrow> string \<Rightarrow> Minion \<Rightarrow> QueryResponse" where
  "Query now detail errmsg m =
     (if over_loaded m then empty_response
      else if task_frozen m \<and> frozen_time m + 300 < now then empty_response
      else
        (let r = empty_response\<lparr>r_job_id := Some (m_jobid m),
                                r_task_id := Some (cur_task_id m),
                                r_attempt_id := Some (cur_attempt_id m),
                                r_task_state := Some (cur_task_state m)\<rparr>
         in if detail then r\<lparr>r_log_msg := Some errmsg\<rparr> else r))"











section \<open>Reachable tracker states\<close>


text \<open>
  The part of the tracker that accounts for failures, and the relation between its
  components that every reachable state satisfies.
\<close>

definition failure_view ::
  "JobTracker \<Rightarrow> int list \<times> (int \<Rightarrow> string set) \<times> int set \<times> int \<times> int" where
  "failure_view t = (failed_count t, failed_nodes t, ignore_failure_mappers t,
                     ignored_map_failures t, ignore_map_failures (job_descriptor t))"


section \<open>Example jobs\<close>

text \<open>
  Concrete inputs on which the operations are run below: the default flags of
  master\_flags.cc (with a retry bound of 3 and at most two counters per job), a job with
  one input, two reduce tasks, one retry per map task and a budget of two ignored map
  failures, and a partition of the input into \<open>n\<close> splits.
\<close>

definition ex_flags :: Flags where
  "ex_flags = \<lparr>first_sleeptime = 10, time_tolerance = 120, replica_num = 3,
     replica_begin = 100, replica_begin_percent = 10, retry_bound = 3, left_percent = 120,
     max_counters_per_job = 2, parallel_attempts = 5\<rparr>"

definition ex_job :: "JobType \<Rightarrow> JobDescriptor" where
  "ex_job jt = \<lparr>job_type = jt, inputs = [''/in''], output_path = ''/out'',
     map_total = 0, reduce_total = 2, has_reduce_total = True,
     map_capacity = 10, reduce_capacity = 2, has_reduce_capacity = True,
     map_retry = 1, has_map_retry = True, reduce_retry = 1, has_reduce_retry = True,
     ignore_map_failures = 2, ignore_reduce_failures = 0,
     map_allow_duplicates = True, reduce_allow_duplicates = True\<rparr>"

definition ex_parts :: "nat \<Rightarrow> ResourceItem list" where
  "ex_parts n = map (\<lambda>i. \<lparr>no = int i, item_attempt = 0, status = kResPending,
     allocated = 0, input_file = ''/in'', offset = 0, split_size = 1\<rparr>) [0..<n]"

definition ex_new :: "JobType \<Rightarrow> JobTracker" where
  "ex_new jt = JobTracker_new ex_flags ''job_1'' (ex_job jt)"

definition ex_env :: FinishEnv where
  "ex_env = \<lparr>fin_now = 7, w_create = kOk, w_close = kOk, reduce_start = kOk\<rparr>"

text \<open>The tracker after a successful \<open>Start\<close> on \<open>n\<close> splits.\<close>

definition ex_started :: "JobType \<Rightarrow> nat \<Rightarrow> JobTracker" where
  "ex_started jt n = snd (the (Start ex_flags 5 False (ex_parts n) kOk (ex_new jt)))"













text \<open>
  A map-only run with two splits and duplicates allowed: three workers take task 0,
  task 1 and a duplicate of task 0; the first attempt of task 0 reports Completed, then
  the duplicate does.
\<close>

definition dup_t3 :: JobTracker where
  "dup_t3 = snd (the (AssignMap ex_flags 8 ''h3:1''
      (snd (the (AssignMap ex_flags 7 ''h2:1''
         (snd (the (AssignMap ex_flags 6 ''h1:1'' (ex_started kMapOnlyJob 2)))))))))"




text \<open>
  The run with duplicates in which the first attempt of task 0 reports Failed and the
  duplicate then reports Completed; and the first run again, killed.
\<close>

definition lost_t4 :: JobTracker where
  "lost_t4 = snd (the (FinishMap ex_flags ex_env 0 1 kTaskFailed ''err'' [] dup_t3))"

definition lost_t5 :: JobTracker where
  "lost_t5 = snd (the (FinishMap ex_flags ex_env 0 2 kTaskCompleted [] [] lost_t4))"

section \<open>Evaluation of the example jobs\<close>

lemmas ex_defs = ex_flags_def ex_job_def ex_parts_def ex_new_def ex_env_def ex_started_def
  JobTracker_new_def Start_def BuildResourceManagers_def BuildEndGameCounters_def
  SumOfItem_def IdManager_def resize_def cdiv_def Let_def

section \<open>Early reduce reports\<close>

text \<open>
  Claim C1. Whenever the map pool has fewer Done items than \<open>map_total\<close> and the reported
  state is not Killed, \<open>FinishReduce\<close> returns \<open>kSuspend\<close> and the tracker it leaves is
  the tracker it found: no ledger entry, pool, counter or job state changes.
\<close>

theorem FinishReduce_early_suspend:
  assumes "map_manager t = Some mm"
      and "Done mm < map_total (job_descriptor t)"
      and "st \<noteq> kTaskKilled"
  shows "FinishReduce fl env n a st err cnts t = Some (kSuspend, t)"
  using assms by (simp add: FinishReduce_def map_not_done_def)

text \<open>A job started on five splits, none of them done, receives a Completed reduce report.\<close>

theorem FinishReduce_early_suspend_witness:
  "map_manager (ex_started kMapReduceJob 5) = Some (ex_parts 5)
   \<and> Done (ex_parts 5) < map_total (job_descriptor (ex_started kMapReduceJob 5))
   \<and> kTaskCompleted \<noteq> kTaskKilled
   \<and> FinishReduce ex_flags ex_env 0 1 kTaskCompleted [] [(''c'', 1)]
        (ex_started kMapReduceJob 5) = Some (kSuspend, ex_started kMapReduceJob 5)"
proof -
  have m: "map_manager (ex_started kMapReduceJob 5) = Some (ex_parts 5)"
    by (simp add: ex_defs)
  have d: "Done (ex_parts 5) < map_total (job_descriptor (ex_started kMapReduceJob 5))"
    by (simp add: ex_defs Done_def)
  have k: "kTaskCompleted \<noteq> kTaskKilled" by simp
  from FinishReduce_early_suspend [OF m d k] m d k show ?thesis by blast
qed

section \<open>Failures of Start\<close>

text \<open>
  Claim C3, as amended. When the output path exists, \<open>Start\<close> returns \<open>kWriteFileFail\<close>,
  the job state is Failed, both totals are 0 and nothing else but the start time changes
  (no deployer is created). When the partition is empty, \<open>BuildResourceManagers\<close> returns
  \<open>kOpenFileFail\<close> and \<open>Start\<close> turns that into \<open>kNoMore\<close>; the job state is Failed and
  both totals are 0.
\<close>

theorem Start_failures:
  "(out_exists \<longrightarrow>
      Start fl now out_exists parts g t =
        Some (kWriteFileFail,
              t\<lparr>start_time := now,
                job_descriptor := (job_descriptor t)\<lparr>map_total := 0, reduce_total := 0\<rparr>,
                job_state := kFailed\<rparr>))
   \<and> (\<not> out_exists \<and> inputs (job_descriptor t) \<noteq> [] \<and> parts = [] \<longrightarrow>
      map_option fst (BuildResourceManagers parts (t\<lparr>start_time := now\<rparr>)) = Some kOpenFileFail
      \<and> Start fl now out_exists parts g t =
        Some (kNoMore,
              t\<lparr>start_time := now, map_manager := Some [],
                job_descriptor := (job_descriptor t)\<lparr>map_total := 0, reduce_total := 0\<rparr>,
                job_state := kFailed\<rparr>))"
  by (simp add: Start_def BuildResourceManagers_def SumOfItem_def Let_def)

theorem Start_failures_witness:
  "map_option fst (Start ex_flags 5 True (ex_parts 2) kOk (ex_new kMapReduceJob))
     = Some kWriteFileFail
   \<and> map_option (job_state \<circ> snd) (Start ex_flags 5 True (ex_parts 2) kOk (ex_new kMapReduceJob))
     = Some kFailed
   \<and> map_option (map_gru \<circ> snd) (Start ex_flags 5 True (ex_parts 2) kOk (ex_new kMapReduceJob))
     = Some None
   \<and> inputs (job_descriptor (ex_new kMapReduceJob)) \<noteq> []
   \<and> map_option fst (Start ex_flags 5 False [] kOk (ex_new kMapReduceJob)) = Some kNoMore
   \<and> map_option (job_state \<circ> snd) (Start ex_flags 5 False [] kOk (ex_new kMapReduceJob))
     = Some kFailed"
  using Start_failures [of True ex_flags 5 "ex_parts 2" kOk "ex_new kMapReduceJob"]
        Start_failures [of False ex_flags 5 "[]" kOk "ex_new kMapReduceJob"]
  by (simp add: ex_new_def ex_job_def JobTracker_new_def Let_def)

text \<open>On an empty partition the status of \<open>Start\<close> is not \<open>kOpenFileFail\<close>.\<close>

theorem Start_empty_partition_counterexample:
  "map_option fst (Start ex_flags 5 False [] kOk (ex_new kMapReduceJob)) \<noteq> Some kOpenFileFail"
  by (simp add: ex_defs)

section \<open>Dismissal\<close>




section \<open>End-game thresholds\<close>




section \<open>User counters\<close>






section \<open>Failure accounting\<close>

lemma failure_view_frame [simp]:
  "failure_view (job_id_update f0 t) = failure_view t"
  "failure_view (job_state_update f1 t) = failure_view t"
  "failure_view (map_allow_dup_update f2 t) = failure_view t"
  "failure_view (reduce_allow_dup_update f3 t) = failure_view t"
  "failure_view (map_gru_update f4 t) = failure_view t"
  "failure_view (map_manager_update f5 t) = failure_view t"
  "failure_view (map_end_game_begin_update f6 t) = failure_view t"
  "failure_view (map_killed_update f7 t) = failure_view t"
  "failure_view (map_failed_update f8 t) = failure_view t"
  "failure_view (reduce_begin_update f9 t) = failure_view t"
  "failure_view (reduce_gru_update f10 t) = failure_view t"
  "failure_view (reduce_manager_update f11 t) = failure_view t"
  "failure_view (reduce_end_game_begin_update f12 t) = failure_view t"
  "failure_view (reduce_killed_update f13 t) = failure_view t"
  "failure_view (reduce_failed_update f14 t) = failure_view t"
  "failure_view (monitor_update f15 t) = failure_view t"
  "failure_view (map_monitoring_update f16 t) = failure_view t"
  "failure_view (reduce_monitoring_update f17 t) = failure_view t"
  "failure_view (rpc_client_update f18 t) = failure_view t"
  "failure_view (allocation_table_update f19 t) = failure_view t"
  "failure_view (map_index_update f20 t) = failure_view t"
  "failure_view (reduce_index_update f21 t) = failure_view t"
  "failure_view (time_heap_update f22 t) = failure_view t"
  "failure_view (map_slug_update f23 t) = failure_view t"
  "failure_view (reduce_slug_update f24 t) = failure_view t"
  "failure_view (map_dismissed_update f25 t) = failure_view t"
  "failure_view (reduce_dismissed_update f26 t) = failure_view t"
  "failure_view (counters_update f27 t) = failure_view t"
  "failure_view (ignore_failure_reducers_update f28 t) = failure_view t"
  "failure_view (ignored_reduce_failures_update f29 t) = failure_view t"
  "failure_view (error_msg_update f30 t) = failure_view t"
  "failure_view (start_time_update f31 t) = failure_view t"
  "failure_view (finish_time_update f32 t) = failure_view t"
  "failure_view (retracted_update f33 t) = failure_view t"
  by (simp_all add: failure_view_def)




















lemma failure_view_calls [simp]:
  "failure_view (RetractJob js t) = failure_view t"
  "failure_view (snd (AccumulateCounters fl cnts t)) = failure_view t"
  by (simp_all add: RetractJob_def AccumulateCounters_def)













lemma BuildEndGameCounters_fview [simp]:
  "failure_view (BuildEndGameCounters fl t) = failure_view t"
  by (simp add: BuildEndGameCounters_def Let_def split: option.splits)








lemma load_monitor_fview [simp]: "failure_view (load_monitor st m t) = failure_view t"
  by (simp add: load_monitor_def Let_def)

































section \<open>First Completed wins\<close>






text \<open>\<open>CancelOtherAttempts\<close> on the table.\<close>

lemma cancel_entry_length [simp]:
  "length (cancel_entry a now e tbl) = length tbl"
  by (simp add: cancel_entry_def Let_def)

lemma cancel_entry_keeps:
  "attempt (cancel_entry a now e tbl ! i) = attempt (tbl ! i)"
  "resource_no (cancel_entry a now e tbl ! i) = resource_no (tbl ! i)"
  "state (tbl ! i) = kTaskCanceled \<Longrightarrow> state (cancel_entry a now e tbl ! i) = kTaskCanceled"
  by (cases "i = snd e"; simp add: cancel_entry_def Let_def)+

lemma cancel_entry_hit:
  "pos < length tbl \<Longrightarrow> attempt (tbl ! pos) \<noteq> a
     \<Longrightarrow> state (cancel_entry a now (k, pos) tbl ! pos) = kTaskCanceled"
  by (simp add: cancel_entry_def)

lemma fold_cancel_keeps:
  "length (fold (cancel_entry a now) m tbl) = length tbl
   \<and> attempt (fold (cancel_entry a now) m tbl ! i) = attempt (tbl ! i)
   \<and> resource_no (fold (cancel_entry a now) m tbl ! i) = resource_no (tbl ! i)
   \<and> (state (tbl ! i) = kTaskCanceled \<longrightarrow>
        state (fold (cancel_entry a now) m tbl ! i) = kTaskCanceled)"
proof (induction m arbitrary: tbl)
  case Nil
  show ?case by simp
next
  case (Cons e m)
  from Cons.IH [of "cancel_entry a now e tbl"]
  show ?case by (simp add: cancel_entry_keeps)
qed

lemma fold_cancel_hit:
  "(k, pos) \<in> set m \<Longrightarrow> pos < length tbl \<Longrightarrow> attempt (tbl ! pos) \<noteq> a
     \<Longrightarrow> state (fold (cancel_entry a now) m tbl ! pos) = kTaskCanceled"
proof (induction m arbitrary: tbl)
  case Nil
  then show ?case by simp
next
  case (Cons e m)
  show ?case
  proof (cases "e = (k, pos)")
    case True
    from cancel_entry_hit [OF Cons.prems(2,3), of now k]
      fold_cancel_keeps [of a now m "cancel_entry a now (k, pos) tbl" pos] True
    show ?thesis by simp
  next
    case False
    with Cons.prems have "(k, pos) \<in> set m" by simp
    from Cons.IH [OF this, of "cancel_entry a now e tbl"] Cons.prems(2,3)
    show ?thesis by (simp add: cancel_entry_keeps)
  qed
qed











section \<open>Checkpoint round trip\<close>

text \<open>The number of ledger entries of a phase in a given state.\<close>

lemma load_entry_fields:
  "allocation_table (load_entry e t) = allocation_table t @ [e]"
  "job_state (load_entry e t) = job_state t"
  "job_id (load_entry e t) = job_id t"
  "map_manager (load_entry e t) = map_manager t"
  "reduce_manager (load_entry e t) = reduce_manager t"
  "map_failed (load_entry e t) = map_failed t + (if is_map e \<and> state e = kTaskFailed then 1 else 0)"
  "map_killed (load_entry e t) = map_killed t + (if is_map e \<and> state e = kTaskKilled then 1 else 0)"
  "reduce_failed (load_entry e t)
     = reduce_failed t + (if \<not> is_map e \<and> state e = kTaskFailed then 1 else 0)"
  "reduce_killed (load_entry e t)
     = reduce_killed t + (if \<not> is_map e \<and> state e = kTaskKilled then 1 else 0)"
  by (simp_all add: load_entry_def Let_def split: TaskState.splits)

lemma fold_load_entry_fields:
  "allocation_table (fold load_entry es t) = allocation_table t @ es
   \<and> job_state (fold load_entry es t) = job_state t
   \<and> job_id (fold load_entry es t) = job_id t
   \<and> map_manager (fold load_entry es t) = map_manager t
   \<and> reduce_manager (fold load_entry es t) = reduce_manager t
   \<and> map_failed (fold load_entry es t)
       = map_failed t + int (length (filter (\<lambda>e. is_map e \<and> state e = kTaskFailed) es))
   \<and> map_killed (fold load_entry es t)
       = map_killed t + int (length (filter (\<lambda>e. is_map e \<and> state e = kTaskKilled) es))
   \<and> reduce_failed (fold load_entry es t)
       = reduce_failed t + int (length (filter (\<lambda>e. \<not> is_map e \<and> state e = kTaskFailed) es))
   \<and> reduce_killed (fold load_entry es t)
       = reduce_killed t + int (length (filter (\<lambda>e. \<not> is_map e \<and> state e = kTaskKilled) es))"
proof (induction es arbitrary: t)
  case Nil
  show ?case by simp
next
  case (Cons e es)
  from Cons.IH [of "load_entry e t"] show ?case by (simp add: load_entry_fields)
qed

lemma load_monitor_fields:
  "allocation_table (load_monitor st m t) = allocation_table t"
  "job_state (load_monitor st m t) = job_state t"
  "job_id (load_monitor st m t) = job_id t"
  "map_manager (load_monitor st m t) = map_manager t"
  "reduce_manager (load_monitor st m t) = reduce_manager t"
  "map_failed (load_monitor st m t) = map_failed t"
  "map_killed (load_monitor st m t) = map_killed t"
  "reduce_failed (load_monitor st m t) = reduce_failed t"
  "reduce_killed (load_monitor st m t) = reduce_killed t"
  by (simp_all add: load_monitor_def Let_def)

lemma load_failed_count_fields:
  "allocation_table (load_failed_count t) = allocation_table t"
  "job_state (load_failed_count t) = job_state t"
  "job_id (load_failed_count t) = job_id t"
  "map_manager (load_failed_count t) = map_manager t"
  "reduce_manager (load_failed_count t) = reduce_manager t"
  "map_failed (load_failed_count t) = map_failed t"
  "map_killed (load_failed_count t) = map_killed t"
  "reduce_failed (load_failed_count t) = reduce_failed t"
  "reduce_killed (load_failed_count t) = reduce_killed t"
  "monitor (load_failed_count t) = monitor t"
  by (simp_all add: load_failed_count_def Let_def)

lemma BuildEndGameCounters_fields:
  "allocation_table (BuildEndGameCounters fl t) = allocation_table t"
  "job_state (BuildEndGameCounters fl t) = job_state t"
  "job_id (BuildEndGameCounters fl t) = job_id t"
  "map_manager (BuildEndGameCounters fl t) = map_manager t"
  "reduce_manager (BuildEndGameCounters fl t) = reduce_manager t"
  "map_failed (BuildEndGameCounters fl t) = map_failed t"
  "map_killed (BuildEndGameCounters fl t) = map_killed t"
  "reduce_failed (BuildEndGameCounters fl t) = reduce_failed t"
  "reduce_killed (BuildEndGameCounters fl t) = reduce_killed t"
  "monitor (BuildEndGameCounters fl t) = monitor t"
  by (simp_all add: BuildEndGameCounters_def Let_def split: option.splits)

lemma load_pools_fields:
  "allocation_table (load_pools fl data resource t) = allocation_table t"
  "job_state (load_pools fl data resource t) = job_state t"
  "job_id (load_pools fl data resource t) = job_id t"
  "map_failed (load_pools fl data resource t) = map_failed t"
  "map_killed (load_pools fl data resource t) = map_killed t"
  "reduce_failed (load_pools fl data resource t) = reduce_failed t"
  "reduce_killed (load_pools fl data resource t) = reduce_killed t"
  "monitor (load_pools fl data resource t) = monitor t"
  "map_manager (load_pools fl data resource t) =
     (if map_total (job_descriptor t) \<noteq> 0
      then Some (map2 overlay resource (Replay data (nat (map_total (job_descriptor t))) True))
      else map_manager t)"
  "reduce_manager (load_pools fl data resource t) =
     (if reduce_total (job_descriptor t) \<noteq> 0
      then Some (Replay data (length (IdManager (reduce_total (job_descriptor t)))) False)
      else reduce_manager t)"
  by (simp_all add: load_pools_def Let_def BuildEndGameCounters_fields)

text \<open>\<open>Replay\<close>: a task is Done exactly when the history has a Completed entry for it.\<close>

lemma replay_step_length [simp]: "length (replay_step m e tbl) = length tbl"
  by (simp add: replay_step_def Let_def)

lemma replay_step_done:
  assumes "k < length tbl"
  shows "status (replay_step m e tbl ! k) = kResDone \<longleftrightarrow>
           status (tbl ! k) = kResDone
           \<or> (is_map e = m \<and> state e = kTaskCompleted \<and> size_t_of_int (resource_no e) = int k)"
proof (cases "size_t_of_int (resource_no e) \<ge> int (length tbl) \<or> is_map e \<noteq> m")
  case True
  with assms show ?thesis by (auto simp add: replay_step_def)
next
  case False
  then have r: "size_t_of_int (resource_no e) < int (length tbl)" "is_map e = m" by auto
  have nn: "0 \<le> size_t_of_int (resource_no e)" by (simp add: size_t_of_int_def)
  show ?thesis
  proof (cases "nat (size_t_of_int (resource_no e)) = k")
    case True
    with nn have "size_t_of_int (resource_no e) = int k" by simp
    with assms r True show ?thesis
      by (cases "state e") (simp_all add: replay_step_def Let_def)
  next
    case False
    with nn have "size_t_of_int (resource_no e) \<noteq> int k" by auto
    with assms r False show ?thesis by (simp add: replay_step_def Let_def)
  qed
qed

lemma fold_replay_done:
  "k < length tbl \<Longrightarrow>
     status (fold (replay_step m) h tbl ! k) = kResDone \<longleftrightarrow>
       status (tbl ! k) = kResDone
       \<or> (\<exists>e \<in> set h. is_map e = m \<and> state e = kTaskCompleted
                        \<and> size_t_of_int (resource_no e) = int k)"
proof (induction h arbitrary: tbl)
  case Nil
  show ?case by simp
next
  case (Cons e h)
  from Cons.prems have "k < length (replay_step m e tbl)" by simp
  from Cons.IH [OF this] replay_step_done [OF Cons.prems, of m e]
  show ?case by auto
qed

lemma Replay_length [simp]: "length (Replay h n m) = n"
proof -
  have "\<And>tbl. length (fold (replay_step m) h tbl) = length tbl"
    by (induction h) simp_all
  then show ?thesis by (simp add: Replay_def replay_init_def)
qed

lemma Replay_done:
  assumes "k < n"
  shows "status (Replay h n m ! k) = kResDone \<longleftrightarrow>
           (\<exists>e \<in> set h. is_map e = m \<and> state e = kTaskCompleted
                          \<and> size_t_of_int (resource_no e) = int k)"
proof -
  have "k < length (replay_init n)" using assms by (simp add: replay_init_def)
  from fold_replay_done [OF this, of m h] assms
  show ?thesis by (simp add: Replay_def replay_init_def)
qed

end
